theory Spec2Isabelle
  imports Complex_Main "HOL-Library.AList" "HOL-Library.Sublist"
begin

section \<open>Values shared by the two clients\<close>

text \<open>
  The repository holds two clients of one HTTP backend: \<^verbatim>\<open>eventsort-ui\<close> (TypeScript, a
  single-card swipe stack, credential in \<^verbatim>\<open>localStorage\<close>) and \<^verbatim>\<open>frontend\<close> (JavaScript, a
  list view on a query cache, credential in \<^verbatim>\<open>sessionStorage\<close>). Definitions of the first
  carry the suffix \<open>_ui\<close> where a name occurs in both, those of the second \<open>_frontend\<close>.
\<close>

subsection \<open>Numbers as text\<close>

text \<open>
  \<^verbatim>\<open>Number.prototype.toString\<close> and template literals, for the integers that identifiers
  are (decimal notation; JavaScript switches to exponent notation only from \<open>10^21\<close> on).
\<close>

definition digit_char :: "nat \<Rightarrow> char" where
  "digit_char d = ''0123456789'' ! d"

fun showNat :: "nat \<Rightarrow> string" where
  "showNat n = (if n < 10 then [digit_char n] else showNat (n div 10) @ [digit_char (n mod 10)])"

declare showNat.simps [simp del]

definition js_toString :: "int \<Rightarrow> string" where
  "js_toString i = (if i < 0 then ''-'' @ showNat (nat (- i)) else showNat (nat i))"

subsection \<open>Web Storage\<close>

text \<open>
  A storage area (\<^verbatim>\<open>localStorage\<close>, \<^verbatim>\<open>sessionStorage\<close>) is the list of the
  \<^verbatim>\<open>setItem\<close> calls made on it, newest first: \<^verbatim>\<open>getItem\<close> finds the newest value of a
  key and yields \<^verbatim>\<open>null\<close> (\<open>None\<close>) for a key never written, and the number of writes
  between two states is the difference of their lengths.
\<close>

type_synonym storage = "(string \<times> string) list"

definition setItem :: "string \<Rightarrow> string \<Rightarrow> storage \<Rightarrow> storage" where
  "setItem k v st = (k, v) # st"

definition getItem :: "storage \<Rightarrow> string \<Rightarrow> string option" where
  "getItem st k = map_of st k"

subsection \<open>The data of \<^verbatim>\<open>types/Event\<close>\<close>

text \<open>
  A field that is \<^verbatim>\<open>T | null\<close> is an option. The fields \<^verbatim>\<open>id\<close>, \<^verbatim>\<open>user_id\<close> and
  \<^verbatim>\<open>username\<close> of an event are prefixed with \<open>e_\<close>: \<open>id\<close> is the identity of HOL, and
  the other two are fields of the token exchange's response as well.
\<close>

record event =
  e_id :: int
  e_user_id :: int
  e_username :: string
  title :: string
  event_type :: string
  date :: string
  location :: "string option"
  synopsis :: string
  organisation :: "string option"
  fee :: "real option"
  signup_link :: "string option"
  deadline :: "string option"
  target_audience :: "string option"
  refreshments :: "string option"
  key_speakers :: "string option"
  raw_message :: "string option"
  user_interested :: "bool option"
  date_created :: string

record auth_response =
  user_id :: int
  username :: string
  message :: string

record swipe_response =
  success :: bool
  event_id :: int
  interested :: bool
  swipe_message :: string

record stats =
  total_events :: nat
  stats_interested :: nat
  not_interested :: nat
  pending_swipes :: nat
  urgent_events :: nat

text \<open>
  A rejected request, as the \<^verbatim>\<open>catch\<close> blocks read it: \<^verbatim>\<open>err.response?.data?.error\<close> is
  the message of the server's answer when there is an answer and it has one.
\<close>

datatype http_error = NetworkError | HttpError nat "string option"

fun response_error :: "http_error \<Rightarrow> string option" where
  "response_error NetworkError = None"
| "response_error (HttpError code msg) = msg"

text \<open>JavaScript's truthiness of a \<^verbatim>\<open>string | null\<close>: neither \<^verbatim>\<open>null\<close> nor empty.\<close>

fun truthy :: "string option \<Rightarrow> bool" where
  "truthy None = False"
| "truthy (Some s) = (s \<noteq> [])"

section \<open>The Authenticated Request Gateway\<close>

datatype http_method = GET | POST

datatype payload = NoPayload | Interested bool

text \<open>
  The request configuration as the interceptor sees it: axios joins \<^verbatim>\<open>baseURL\<close> and
  \<^verbatim>\<open>url\<close> only when the request leaves.
\<close>

record config =
  http_method :: http_method
  baseURL :: "string option"
  url :: string
  params :: "(string \<times> string) list"
  payload :: payload
  headers :: "(string \<times> string) list"

definition js_bool :: "bool \<Rightarrow> string" where
  "js_bool b = (if b then ''true'' else ''false'')"

text \<open>
  The request interceptor of both \<^verbatim>\<open>api\<close> instances (\<^verbatim>\<open>services/api\<close> of eventsort-ui
  reads \<^verbatim>\<open>localStorage\<close>, \<^verbatim>\<open>api/client.js\<close> of frontend reads \<^verbatim>\<open>sessionStorage\<close>; the
  bodies are the same):
  \<^verbatim>\<open>const userId = getItem('user_id'); if (userId) { config.headers.Authorization = `Bearer ${userId}` } return config\<close>
\<close>

definition getUserId :: "storage \<Rightarrow> string option" where
  "getUserId st = getItem st ''user_id''"

definition interceptor :: "storage \<Rightarrow> config \<Rightarrow> config" where
  "interceptor st cfg =
     (let userId = getUserId st in
      if truthy userId
      then cfg\<lparr>headers := AList.update ''Authorization'' (''Bearer '' @ the userId) (headers cfg)\<rparr>
      else cfg)"

definition authorization :: "config \<Rightarrow> string option" where
  "authorization cfg = map_of (headers cfg) ''Authorization''"

subsection \<open>\<^verbatim>\<open>services/api\<close> of eventsort-ui\<close>

definition API_BASE_URL :: string where
  "API_BASE_URL = ''https://api-production-ce2b.up.railway.app/''"

text \<open>\<^verbatim>\<open>axios.create({baseURL, headers: {'Content-Type': 'application/json'}})\<close> with the interceptor.\<close>

definition api_ui :: "storage \<Rightarrow> http_method \<Rightarrow> string \<Rightarrow> (string \<times> string) list \<Rightarrow> payload \<Rightarrow> config" where
  "api_ui st m path ps b =
     interceptor st
       \<lparr>http_method = m, baseURL = Some API_BASE_URL, url = path, params = ps, payload = b,
        headers = [(''Content-Type'', ''application/json'')]\<rparr>"

text \<open>The token exchange goes through plain \<^verbatim>\<open>axios\<close>, not through the instance: no interceptor.\<close>

definition validateToken :: "string \<Rightarrow> config" where
  "validateToken token =
     \<lparr>http_method = POST, baseURL = None, url = API_BASE_URL @ ''/auth/validate-token'',
      params = [(''token'', token)], payload = NoPayload, headers = []\<rparr>"

datatype event_filter = FilterAll | FilterUpcoming | FilterUrgent

fun filter_name :: "event_filter \<Rightarrow> string" where
  "filter_name FilterAll = ''all''"
| "filter_name FilterUpcoming = ''upcoming''"
| "filter_name FilterUrgent = ''urgent''"

definition getEvents :: "storage \<Rightarrow> event_filter \<Rightarrow> config" where
  "getEvents st f =
     api_ui st GET ''/events'' [(''filter'', filter_name f), (''include_raw'', js_bool False)] NoPayload"

definition getEvent :: "storage \<Rightarrow> int \<Rightarrow> bool \<Rightarrow> config" where
  "getEvent st eventId includeRaw =
     api_ui st GET (''/events/'' @ js_toString eventId) [(''include_raw'', js_bool includeRaw)] NoPayload"

definition swipeEvent :: "storage \<Rightarrow> int \<Rightarrow> bool \<Rightarrow> config" where
  "swipeEvent st eventId b =
     api_ui st POST (''/events/'' @ js_toString eventId @ ''/swipe'') [] (Interested b)"

definition getInterestedEvents :: "storage \<Rightarrow> config" where
  "getInterestedEvents st =
     api_ui st GET ''/events/interested/all'' [(''include_raw'', js_bool False)] NoPayload"

definition getStats :: "storage \<Rightarrow> config" where
  "getStats st = api_ui st GET ''/stats'' [] NoPayload"

subsection \<open>\<^verbatim>\<open>api/client.js\<close> and the hooks' requests of frontend\<close>

text \<open>
  \<^verbatim>\<open>axios.create({baseURL: API_BASE_URL})\<close> with the interceptor; the base URL comes from
  the build environment and is a parameter here.
\<close>

definition api_frontend :: "string \<Rightarrow> storage \<Rightarrow> http_method \<Rightarrow> string \<Rightarrow> (string \<times> string) list \<Rightarrow> payload \<Rightarrow> config" where
  "api_frontend base st m path ps b =
     interceptor st
       \<lparr>http_method = m, baseURL = Some base, url = path, params = ps, payload = b, headers = []\<rparr>"

definition setUserId :: "string \<Rightarrow> storage \<Rightarrow> storage" where
  "setUserId userId st = setItem ''user_id'' userId st"

text \<open>The \<^verbatim>\<open>queryFn\<close> and \<^verbatim>\<open>mutationFn\<close> requests of \<^verbatim>\<open>hooks/useAuth\<close> and \<^verbatim>\<open>hooks/useEvents\<close>.\<close>

definition useAuth_request :: "string \<Rightarrow> storage \<Rightarrow> string \<Rightarrow> config" where
  "useAuth_request base st token =
     api_frontend base st POST ''/auth/validate-token'' [(''token'', token)] NoPayload"

definition useEvents_request :: "string \<Rightarrow> storage \<Rightarrow> string \<Rightarrow> config" where
  "useEvents_request base st f =
     api_frontend base st GET ''/events'' [(''filter'', f), (''include_raw'', js_bool False)] NoPayload"

definition useInterestedEvents_request :: "string \<Rightarrow> storage \<Rightarrow> config" where
  "useInterestedEvents_request base st = api_frontend base st GET ''/events/interested/all'' [] NoPayload"

definition useSwipeEvent_request :: "string \<Rightarrow> storage \<Rightarrow> int \<Rightarrow> bool \<Rightarrow> config" where
  "useSwipeEvent_request base st eventId b =
     api_frontend base st POST (''/events/'' @ js_toString eventId @ ''/swipe'') [] (Interested b)"

definition useStats_request :: "string \<Rightarrow> storage \<Rightarrow> config" where
  "useStats_request base st = api_frontend base st GET ''/stats'' [] NoPayload"

text \<open>The authenticated calls of the two clients, each as the request that leaves.\<close>

definition authenticated_calls :: "string \<Rightarrow> storage \<Rightarrow> event_filter \<Rightarrow> int \<Rightarrow> bool \<Rightarrow> config list" where
  "authenticated_calls base st f eventId b =
     [getEvents st f, getEvent st eventId b, swipeEvent st eventId b, getInterestedEvents st,
      getStats st,
      useEvents_request base st (filter_name f), useInterestedEvents_request base st,
      useSwipeEvent_request base st eventId b, useStats_request base st]"

section \<open>Card rendering\<close>

text \<open>
  The detail rows of a card, in the order of the markup. A JSX expression
  \<^verbatim>\<open>cond && <div/>\<close> renders the row when the condition is truthy and nothing otherwise.
\<close>

datatype fee_text = Free | Dollars real

datatype detail =
    DateRow string
  | LocationRow string
  | OrganisationRow string
  | DeadlineRow string
  | FeeRow fee_text
  | RefreshmentsRow string
  | AudienceRow string
  | SpeakersRow string

definition row_if :: "bool \<Rightarrow> detail \<Rightarrow> detail list" where
  "row_if c d = (if c then [d] else [])"

text \<open>
  \<^verbatim>\<open>components/EventCard.tsx\<close> of eventsort-ui, the \<^verbatim>\<open>event-details\<close> block:
  \<^verbatim>\<open>{event.fee !== null && event.fee > 0 && (<div>... ${event.fee}</div>)}\<close>
\<close>

definition fee_detail_ui :: "real option \<Rightarrow> detail list" where
  "fee_detail_ui f = (case f of None \<Rightarrow> [] | Some x \<Rightarrow> row_if (x > 0) (FeeRow (Dollars x)))"

definition EventCard_ui :: "event \<Rightarrow> detail list" where
  "EventCard_ui e =
     [DateRow (date e),
      LocationRow (if truthy (location e) then the (location e) else ''TBC'')]
     @ row_if (truthy (organisation e)) (OrganisationRow (the (organisation e)))
     @ fee_detail_ui (fee e)
     @ row_if (truthy (refreshments e) \<and> refreshments e \<noteq> Some ''none'')
         (RefreshmentsRow (the (refreshments e)))
     @ row_if (truthy (target_audience e) \<and> target_audience e \<noteq> Some ''all students'')
         (AudienceRow (the (target_audience e)))
     @ row_if (truthy (key_speakers e) \<and> key_speakers e \<noteq> Some ''None'')
         (SpeakersRow (the (key_speakers e)))"

text \<open>
  \<^verbatim>\<open>EventCard\<close> in \<^verbatim>\<open>App.jsx\<close> of frontend, the grid:
  \<^verbatim>\<open>{event.fee !== null && (<div>Fee: {event.fee === 0 ? 'Free' : `$${event.fee}`}</div>)}\<close>
\<close>

definition fee_detail_frontend :: "real option \<Rightarrow> detail list" where
  "fee_detail_frontend f =
     (case f of None \<Rightarrow> [] | Some x \<Rightarrow> [FeeRow (if x = 0 then Free else Dollars x)])"

definition EventCard_frontend :: "event \<Rightarrow> detail list" where
  "EventCard_frontend e =
     [DateRow (date e)]
     @ row_if (truthy (location e)) (LocationRow (the (location e)))
     @ row_if (truthy (deadline e)) (DeadlineRow (the (deadline e)))
     @ fee_detail_frontend (fee e)"

text \<open>An event to evaluate the definitions on.\<close>

definition sample_event :: "int \<Rightarrow> string \<Rightarrow> event" where
  "sample_event i t =
     \<lparr>e_id = i, e_user_id = 7, e_username = ''ann'', title = t, event_type = ''talk'',
      date = ''2025-03-01'', location = None, synopsis = ''s'', organisation = None,
      fee = None, signup_link = None, deadline = None, target_audience = None,
      refreshments = None, key_speakers = None, raw_message = None,
      user_interested = None, date_created = ''2025-02-01''\<rparr>"

section \<open>\<^verbatim>\<open>App.tsx\<close> of eventsort-ui: bootstrap, review queue and swipe resolver\<close>

datatype direction = Left | Right

text \<open>The component's state, one field per \<^verbatim>\<open>useState\<close>, with the initial values given there.\<close>

record app_state =
  events :: "event list"
  currentIndex :: nat
  loading :: bool
  error :: "string option"
  authenticated :: bool
  swiping :: bool
  swipeDirection :: "direction option"

definition initial_app :: app_state where
  "initial_app =
     \<lparr>events = [], currentIndex = 0, loading = True, error = None, authenticated = False,
      swiping = False, swipeDirection = None\<rparr>"

text \<open>
  The page around the component: the parsed query string of the URL
  (\<^verbatim>\<open>URLSearchParams.get\<close> yields the first value of a key, or \<^verbatim>\<open>null\<close>), the storage area,
  the requests issued so far (oldest first), and what is suspended: the \<^verbatim>\<open>authenticate\<close>
  calls waiting at \<^verbatim>\<open>await validateToken\<close> and at \<^verbatim>\<open>await getEvents\<close>, the
  \<^verbatim>\<open>handleSwipe\<close> calls waiting at \<^verbatim>\<open>await swipeEvent\<close>, and the \<^verbatim>\<open>setTimeout\<close>
  callbacks scheduled and not yet run.

  An event handler reads the state of the latest render. React commits the updates of a
  handler before the next browser event is dispatched, so the handler of the next event
  reads the state the previous one left; the model hands each handler the current state.
\<close>

record world =
  app :: app_state
  search :: "(string \<times> string) list"
  localStorage :: storage
  sent :: "config list"
  awaiting_exchange :: nat
  awaiting_events :: nat
  awaiting_swipe :: nat
  timers :: nat

definition initial_world :: "(string \<times> string) list \<Rightarrow> storage \<Rightarrow> world" where
  "initial_world q st =
     \<lparr>app = initial_app, search = q, localStorage = st, sent = [],
      awaiting_exchange = 0, awaiting_events = 0, awaiting_swipe = 0, timers = 0\<rparr>"

subsection \<open>\<^verbatim>\<open>authenticate\<close>, cut at its two \<^verbatim>\<open>await\<close>s\<close>

definition no_token_message :: string where
  "no_token_message = ''No authentication token found. Please get a new link from the Telegram bot.''"

definition auth_failed_message :: string where
  "auth_failed_message = ''Authentication failed. Please get a new link from the bot.''"

text \<open>Up to \<^verbatim>\<open>await validateToken(token)\<close>: the token is read; without one nothing is sent.\<close>

definition authenticate_start :: "world \<Rightarrow> world" where
  "authenticate_start w =
     (let token = map_of (search w) ''token'' in
      if \<not> truthy token
      then w\<lparr>app := (app w)\<lparr>error := Some no_token_message, loading := False\<rparr>\<rparr>
      else w\<lparr>sent := sent w @ [validateToken (the token)],
             awaiting_exchange := awaiting_exchange w + 1\<rparr>)"

text \<open>
  The exchange resolved: both \<^verbatim>\<open>localStorage.setItem\<close> calls, \<^verbatim>\<open>setAuthenticated(true)\<close>,
  and on to \<^verbatim>\<open>await getEvents('upcoming')\<close>.
\<close>

definition authenticate_exchanged :: "auth_response \<Rightarrow> world \<Rightarrow> world" where
  "authenticate_exchanged authResponse w =
     (let st = setItem ''username'' (username authResponse)
                 (setItem ''user_id'' (js_toString (user_id authResponse)) (localStorage w))
      in w\<lparr>localStorage := st,
            app := (app w)\<lparr>authenticated := True\<rparr>,
            sent := sent w @ [getEvents st FilterUpcoming],
            awaiting_events := awaiting_events w + 1\<rparr>)"

text \<open>The queue arrived: \<^verbatim>\<open>setEvents(eventsData); setCurrentIndex(0); setLoading(false)\<close>.\<close>

definition authenticate_loaded :: "event list \<Rightarrow> world \<Rightarrow> world" where
  "authenticate_loaded eventsData w =
     w\<lparr>app := (app w)\<lparr>events := eventsData, currentIndex := 0, loading := False\<rparr>\<rparr>"

text \<open>The \<^verbatim>\<open>catch\<close> block, reached from either \<^verbatim>\<open>await\<close>.\<close>

definition authenticate_catch :: "http_error \<Rightarrow> world \<Rightarrow> world" where
  "authenticate_catch err w =
     w\<lparr>app := (app w)
         \<lparr>error := Some (if truthy (response_error err) then the (response_error err)
                         else auth_failed_message),
          loading := False\<rparr>\<rparr>"

subsection \<open>\<^verbatim>\<open>handleSwipe\<close>, cut at its \<^verbatim>\<open>await\<close> and at the timer\<close>

text \<open>
  Up to \<^verbatim>\<open>await swipeEvent(currentEvent.id, interested)\<close>. The guard returns before
  anything is set or sent; past it, \<^verbatim>\<open>events[currentIndex]\<close> is in range.
\<close>

definition handleSwipe :: "direction \<Rightarrow> world \<Rightarrow> world" where
  "handleSwipe d w =
     (if swiping (app w) \<or> currentIndex (app w) \<ge> length (events (app w)) then w
      else
        let currentEvent = events (app w) ! currentIndex (app w);
            interested = (d = Right)
        in w\<lparr>app := (app w)\<lparr>swiping := True, swipeDirection := Some d\<rparr>,
              sent := sent w @ [swipeEvent (localStorage w) (e_id currentEvent) interested],
              awaiting_swipe := awaiting_swipe w + 1\<rparr>)"

text \<open>The request resolved: the log line, and \<^verbatim>\<open>setTimeout(callback, 300)\<close>.\<close>

definition handleSwipe_resolved :: "world \<Rightarrow> world" where
  "handleSwipe_resolved w = w\<lparr>timers := timers w + 1\<rparr>"

text \<open>The timer's callback: \<^verbatim>\<open>setCurrentIndex(prev => prev + 1); setSwipeDirection(null); setSwiping(false)\<close>.\<close>

definition handleSwipe_timeout :: "world \<Rightarrow> world" where
  "handleSwipe_timeout w =
     w\<lparr>app := (app w)\<lparr>currentIndex := currentIndex (app w) + 1, swipeDirection := None,
                       swiping := False\<rparr>\<rparr>"

text \<open>The \<^verbatim>\<open>catch\<close> block: \<^verbatim>\<open>setSwipeDirection(null); setSwiping(false)\<close>.\<close>

definition handleSwipe_catch :: "world \<Rightarrow> world" where
  "handleSwipe_catch w = w\<lparr>app := (app w)\<lparr>swipeDirection := None, swiping := False\<rparr>\<rparr>"

subsection \<open>What happens to the page, one occurrence at a time\<close>

text \<open>
  A mount runs the effect (\<^verbatim>\<open>useEffect(..., [])\<close> calls \<^verbatim>\<open>authenticate\<close>); a gesture or button
  calls \<^verbatim>\<open>handleSwipe\<close>; a response resumes one suspended call, a timer runs one scheduled
  callback. A response or timer with nothing waiting for it does not occur.
\<close>

datatype occurrence =
    Mount
  | ExchangeOk auth_response
  | ExchangeFail http_error
  | EventsOk "event list"
  | EventsFail http_error
  | Gesture direction
  | SwipeOk
  | SwipeFail http_error
  | Timeout

fun step :: "occurrence \<Rightarrow> world \<Rightarrow> world" where
  "step Mount w = authenticate_start w"
| "step (ExchangeOk r) w =
     (if awaiting_exchange w = 0 then w
      else authenticate_exchanged r (w\<lparr>awaiting_exchange := awaiting_exchange w - 1\<rparr>))"
| "step (ExchangeFail err) w =
     (if awaiting_exchange w = 0 then w
      else authenticate_catch err (w\<lparr>awaiting_exchange := awaiting_exchange w - 1\<rparr>))"
| "step (EventsOk es) w =
     (if awaiting_events w = 0 then w
      else authenticate_loaded es (w\<lparr>awaiting_events := awaiting_events w - 1\<rparr>))"
| "step (EventsFail err) w =
     (if awaiting_events w = 0 then w
      else authenticate_catch err (w\<lparr>awaiting_events := awaiting_events w - 1\<rparr>))"
| "step (Gesture d) w = handleSwipe d w"
| "step SwipeOk w =
     (if awaiting_swipe w = 0 then w
      else handleSwipe_resolved (w\<lparr>awaiting_swipe := awaiting_swipe w - 1\<rparr>))"
| "step (SwipeFail err) w =
     (if awaiting_swipe w = 0 then w
      else handleSwipe_catch (w\<lparr>awaiting_swipe := awaiting_swipe w - 1\<rparr>))"
| "step Timeout w =
     (if timers w = 0 then w else handleSwipe_timeout (w\<lparr>timers := timers w - 1\<rparr>))"

definition run :: "occurrence list \<Rightarrow> world \<Rightarrow> world" where
  "run os w = fold step os w"

text \<open>One successful swipe resolution, from the gesture to the advance of the cursor.\<close>

definition resolution :: "direction \<Rightarrow> occurrence list" where
  "resolution d = [Gesture d, SwipeOk, Timeout]"

text \<open>The occurrence that loads the queue.\<close>

fun is_load :: "occurrence \<Rightarrow> bool" where
  "is_load (EventsOk es) = True"
| "is_load _ = False"

text \<open>The token-exchange requests among the requests issued.\<close>

definition is_exchange :: "config \<Rightarrow> bool" where
  "is_exchange cfg =
     (http_method cfg = POST \<and>
      (url cfg = API_BASE_URL @ ''/auth/validate-token'' \<or> url cfg = ''/auth/validate-token''))"

subsection \<open>What the component renders\<close>

datatype view_ui =
    LoadingView
  | ErrorView string
  | AuthenticatingView
  | CaughtUpView
  | ReviewingView event

definition App_view :: "app_state \<Rightarrow> view_ui" where
  "App_view s =
     (if loading s then LoadingView
      else if truthy (error s) then ErrorView (the (error s))
      else if \<not> authenticated s then AuthenticatingView
      else if currentIndex s \<ge> length (events s) then CaughtUpView
      else ReviewingView (events s ! currentIndex s))"

section \<open>frontend: the hooks on the query cache\<close>

subsection \<open>The query cache\<close>

text \<open>
  The hooks call \<^verbatim>\<open>useQuery\<close>, \<^verbatim>\<open>useMutation\<close> and \<^verbatim>\<open>invalidateQueries\<close> of
  \<^verbatim>\<open>@tanstack/react-query\<close>, a dependency and not a file of the repository. The cache below
  is that library's behaviour as far as the hooks rely on it:
  \<^item> a query is found by its key, an array (here of strings and \<^verbatim>\<open>null\<close>), and is created
    on first use with no data, status \<^verbatim>\<open>pending\<close> and fetch status \<^verbatim>\<open>idle\<close>;
  \<^item> mounting an observer fetches when the query is enabled and has no data or is stale
    (invalidated, or older than its \<^verbatim>\<open>staleTime\<close>), unless a fetch of that query is
    running already, which the observer then shares;
  \<^item> \<^verbatim>\<open>invalidateQueries({queryKey: k})\<close> marks every query whose key starts with \<open>k\<close> and
    refetches those of them that have an enabled observer mounted.
\<close>

type_synonym query_key = "string option list"

datatype fetch_status = Idle | Fetching

datatype query_status = Pending | Success | Failure

datatype query_data = AuthData auth_response | EventsData "event list" | StatsData stats

record query =
  q_data :: "query_data option"
  q_status :: query_status
  fetchStatus :: fetch_status
  isInvalidated :: bool
  observers :: nat

type_synonym query_cache = "(query_key \<times> query) list"

definition new_query :: query where
  "new_query =
     \<lparr>q_data = None, q_status = Pending, fetchStatus = Idle, isInvalidated = False, observers = 0\<rparr>"

definition find_query :: "query_cache \<Rightarrow> query_key \<Rightarrow> query" where
  "find_query c k = (case map_of c k of None \<Rightarrow> new_query | Some q \<Rightarrow> q)"

text \<open>\<open>forever\<close> is \<^verbatim>\<open>staleTime: Infinity\<close>; the default \<^verbatim>\<open>staleTime\<close> is 0, always stale.\<close>

definition shouldFetchOnMount :: "bool \<Rightarrow> bool \<Rightarrow> query \<Rightarrow> bool" where
  "shouldFetchOnMount enabled forever q =
     (enabled \<and> (q_data q = None \<or> isInvalidated q \<or> \<not> forever))"

definition mount_observer :: "query_key \<Rightarrow> bool \<Rightarrow> bool \<Rightarrow> query_cache \<Rightarrow> query_cache \<times> bool" where
  "mount_observer k enabled forever c =
     (let q = find_query c k;
          starts = (shouldFetchOnMount enabled forever q \<and> fetchStatus q = Idle)
      in (AList.update k
            (q\<lparr>observers := observers q + 1,
               fetchStatus := (if starts then Fetching else fetchStatus q)\<rparr>) c,
          starts))"

definition settle_query :: "query_key \<Rightarrow> http_error + query_data \<Rightarrow> query_cache \<Rightarrow> query_cache" where
  "settle_query k r c =
     (let q = find_query c k in
      AList.update k
        (case r of
           Inr d \<Rightarrow> q\<lparr>q_data := Some d, q_status := Success, fetchStatus := Idle,
                      isInvalidated := False\<rparr>
         | Inl err \<Rightarrow> q\<lparr>q_status := Failure, fetchStatus := Idle\<rparr>) c)"

definition invalidateQueries :: "query_key \<Rightarrow> query_cache \<Rightarrow> query_cache" where
  "invalidateQueries k c =
     map (\<lambda>(key, q). (key, if prefix k key then q\<lparr>isInvalidated := True\<rparr> else q)) c"

definition refetched :: "query_key \<Rightarrow> query_cache \<Rightarrow> query_key list" where
  "refetched k c = map fst (filter (\<lambda>(key, q). prefix k key \<and> observers q > 0) c)"

subsection \<open>The page and the hooks\<close>

record frontend =
  cache :: query_cache
  page_search :: "(string \<times> string) list"
  sessionStorage :: storage
  requests :: "config list"
  refetches :: "query_key list"

definition initial_frontend :: "(string \<times> string) list \<Rightarrow> storage \<Rightarrow> frontend" where
  "initial_frontend q st =
     \<lparr>cache = [], page_search = q, sessionStorage = st, requests = [], refetches = []\<rparr>"

definition getTokenFromUrl :: "(string \<times> string) list \<Rightarrow> string option" where
  "getTokenFromUrl q = map_of q ''token''"

text \<open>
  \<^verbatim>\<open>useAuth\<close>: \<^verbatim>\<open>useQuery({queryKey: ['auth', token], queryFn, enabled: !!token, retry: false, staleTime: Infinity})\<close>.
  Mounting the hook mounts an observer; the \<^verbatim>\<open>queryFn\<close> posts the exchange when a fetch
  starts, and on its success calls \<^verbatim>\<open>setUserId(data.user_id)\<close> before the data is cached.
\<close>

definition useAuth_key :: "frontend \<Rightarrow> query_key" where
  "useAuth_key w = [Some ''auth'', getTokenFromUrl (page_search w)]"

definition useAuth_mount :: "string \<Rightarrow> frontend \<Rightarrow> frontend" where
  "useAuth_mount base w =
     (let token = getTokenFromUrl (page_search w);
          m = mount_observer (useAuth_key w) (truthy token) True (cache w)
      in if snd m
         then w\<lparr>cache := fst m,
                requests := requests w @ [useAuth_request base (sessionStorage w) (the token)]\<rparr>
         else w\<lparr>cache := fst m\<rparr>)"

definition useAuth_settled :: "http_error + auth_response \<Rightarrow> frontend \<Rightarrow> frontend" where
  "useAuth_settled r w =
     (case r of
        Inr data \<Rightarrow>
          w\<lparr>sessionStorage := setUserId (js_toString (user_id data)) (sessionStorage w),
            cache := settle_query (useAuth_key w) (Inr (AuthData data)) (cache w)\<rparr>
      | Inl err \<Rightarrow> w\<lparr>cache := settle_query (useAuth_key w) (Inl err) (cache w)\<rparr>)"

text \<open>\<^verbatim>\<open>useEvents(filter)\<close> and \<^verbatim>\<open>useStats()\<close>: queries with the default options.\<close>

definition useEvents_mount :: "string \<Rightarrow> string \<Rightarrow> frontend \<Rightarrow> frontend" where
  "useEvents_mount base f w =
     (let m = mount_observer [Some ''events'', Some f] True False (cache w)
      in if snd m
         then w\<lparr>cache := fst m,
                requests := requests w @ [useEvents_request base (sessionStorage w) f]\<rparr>
         else w\<lparr>cache := fst m\<rparr>)"

definition useStats_mount :: "string \<Rightarrow> frontend \<Rightarrow> frontend" where
  "useStats_mount base w =
     (let m = mount_observer [Some ''stats''] True False (cache w)
      in if snd m
         then w\<lparr>cache := fst m, requests := requests w @ [useStats_request base (sessionStorage w)]\<rparr>
         else w\<lparr>cache := fst m\<rparr>)"

text \<open>\<^verbatim>\<open>Dashboard\<close>: \<^verbatim>\<open>useEvents('upcoming')\<close>, then \<^verbatim>\<open>useStats()\<close>.\<close>

definition Dashboard_mount :: "string \<Rightarrow> frontend \<Rightarrow> frontend" where
  "Dashboard_mount base w = useStats_mount base (useEvents_mount base ''upcoming'' w)"

definition query_settled :: "query_key \<Rightarrow> http_error + query_data \<Rightarrow> frontend \<Rightarrow> frontend" where
  "query_settled k r w = w\<lparr>cache := settle_query k r (cache w)\<rparr>"

text \<open>
  \<^verbatim>\<open>useSwipeEvent\<close>: the mutation posts the decision; \<^verbatim>\<open>onSuccess\<close> runs
  \<^verbatim>\<open>queryClient.invalidateQueries({ queryKey: ['events'] })\<close>, under the comment
  ``Invalidate queries to refresh the list''. There is no \<^verbatim>\<open>onError\<close>.
\<close>

definition useSwipeEvent_mutate :: "string \<Rightarrow> int \<Rightarrow> bool \<Rightarrow> frontend \<Rightarrow> frontend" where
  "useSwipeEvent_mutate base eventId b w =
     w\<lparr>requests := requests w @ [useSwipeEvent_request base (sessionStorage w) eventId b]\<rparr>"

definition useSwipeEvent_settled :: "http_error + swipe_response \<Rightarrow> frontend \<Rightarrow> frontend" where
  "useSwipeEvent_settled r w =
     (case r of
        Inr data \<Rightarrow>
          w\<lparr>cache := invalidateQueries [Some ''events''] (cache w),
            refetches := refetches w @ refetched [Some ''events''] (cache w)\<rparr>
      | Inl err \<Rightarrow> w)"

subsection \<open>What \<^verbatim>\<open>AppContent\<close> renders\<close>

text \<open>
  \<^verbatim>\<open>const { data: auth, isLoading, isError } = useAuth()\<close>. \<^verbatim>\<open>isError\<close> is the status
  \<^verbatim>\<open>error\<close>. \<^verbatim>\<open>isLoading\<close> depends on the library's major version, which no file of the
  repository fixes: from version 5 on it is ``pending and fetching'', before that it is
  ``pending'' alone; \<open>v5\<close> chooses. The last branch reads \<^verbatim>\<open>auth.username\<close>, a
  \<^verbatim>\<open>TypeError\<close> when \<^verbatim>\<open>auth\<close> is \<^verbatim>\<open>undefined\<close>.
\<close>

definition isLoading :: "bool \<Rightarrow> query \<Rightarrow> bool" where
  "isLoading v5 q = (q_status q = Pending \<and> (if v5 then fetchStatus q = Fetching else True))"

definition isError :: "query \<Rightarrow> bool" where
  "isError q = (q_status q = Failure)"

datatype view_frontend = LoadingScreen | AccessDenied | Welcome string | TypeError

definition AppContent :: "bool \<Rightarrow> frontend \<Rightarrow> view_frontend" where
  "AppContent v5 w =
     (let q = find_query (cache w) (useAuth_key w) in
      if isLoading v5 q then LoadingScreen
      else if isError q then AccessDenied
      else (case q_data q of Some (AuthData auth) \<Rightarrow> Welcome (username auth) | _ \<Rightarrow> TypeError))"

subsection \<open>What happens to the frontend page, one occurrence at a time\<close>

text \<open>
  The hook of the bootstrap mounts, the exchange succeeds, the dashboard mounts, its two
  queries are answered, a swipe is submitted and settles. The success of the exchange
  resumes the \<^verbatim>\<open>queryFn\<close> of a running fetch; without one it does not occur.
\<close>

datatype frontend_occurrence =
    AuthMount
  | AuthOk auth_response
  | DashboardMount
  | EventsLoaded "event list"
  | StatsLoaded stats
  | SwipeMutate int bool
  | SwipeSettled "http_error + swipe_response"

fun step_frontend :: "string \<Rightarrow> frontend_occurrence \<Rightarrow> frontend \<Rightarrow> frontend" where
  "step_frontend base AuthMount w = useAuth_mount base w"
| "step_frontend base (AuthOk r) w =
     (if fetchStatus (find_query (cache w) (useAuth_key w)) = Fetching
      then useAuth_settled (Inr r) w else w)"
| "step_frontend base DashboardMount w = Dashboard_mount base w"
| "step_frontend base (EventsLoaded es) w =
     query_settled [Some ''events'', Some ''upcoming''] (Inr (EventsData es)) w"
| "step_frontend base (StatsLoaded s) w = query_settled [Some ''stats''] (Inr (StatsData s)) w"
| "step_frontend base (SwipeMutate eventId b) w = useSwipeEvent_mutate base eventId b w"
| "step_frontend base (SwipeSettled r) w = useSwipeEvent_settled r w"

definition run_frontend :: "string \<Rightarrow> frontend_occurrence list \<Rightarrow> frontend \<Rightarrow> frontend" where
  "run_frontend base os w = fold (step_frontend base) os w"

text \<open>
  The invariant behind the single exchange of frontend. Before the hook has mounted, no
  exchange was requested, the store is as it was and the cache has no query for the
  token. Once it has mounted, exactly one exchange was requested, and the query for the
  token is either being fetched or holds data that is not invalidated.
\<close>

definition auth_query_inv :: "string \<Rightarrow> (string \<times> string) list \<Rightarrow> storage \<Rightarrow> bool \<Rightarrow> frontend \<Rightarrow> bool" where
  "auth_query_inv base q st mounted w =
     (page_search w = q \<and>
      (if mounted
       then filter is_exchange (requests w) = [useAuth_request base st (the (getTokenFromUrl q))]
            \<and> (case map_of (cache w) [Some ''auth'', getTokenFromUrl q] of
                  None \<Rightarrow> False
                | Some a \<Rightarrow> fetchStatus a = Fetching
                            \<or> (fetchStatus a = Idle \<and> q_data a \<noteq> None \<and> \<not> isInvalidated a))
       else filter is_exchange (requests w) = [] \<and> sessionStorage w = st
            \<and> map_of (cache w) [Some ''auth'', getTokenFromUrl q] = None))"

section \<open>Inputs to evaluate the definitions on\<close>

definition sample_auth :: auth_response where
  "sample_auth = \<lparr>user_id = 42, username = ''ann'', message = ''ok''\<rparr>"

definition sample_queue :: "event list" where
  "sample_queue = [sample_event 1 ''E1'', sample_event 2 ''E2'']"

text \<open>The page after a load with a valid token: authenticated, two events queued, cursor 0.\<close>

definition loaded_world :: world where
  "loaded_world =
     run [Mount, ExchangeOk sample_auth, EventsOk sample_queue]
       (initial_world [(''token'', ''abc'')] [])"

definition sample_stats :: stats where
  "sample_stats =
     \<lparr>total_events = 2, stats_interested = 0, not_interested = 0, pending_swipes = 2,
      urgent_events = 0\<rparr>"

definition sample_swipe :: swipe_response where
  "sample_swipe = \<lparr>success = True, event_id = 1, interested = True, swipe_message = ''ok''\<rparr>"

text \<open>
  frontend with the dashboard mounted and both of its queries answered: the queue of two
  events and the statistics are cached, each with one observer.
\<close>

definition dashboard_world :: frontend where
  "dashboard_world =
     query_settled [Some ''stats''] (Inr (StatsData sample_stats))
       (query_settled [Some ''events'', Some ''upcoming''] (Inr (EventsData sample_queue))
          (Dashboard_mount ''http://localhost:8000'' (initial_frontend [] [(''user_id'', ''42'')])))"

section \<open>Properties of the gateway and of the card\<close>

lemmas api_defs = authenticated_calls_def getEvents_def getEvent_def swipeEvent_def
  getInterestedEvents_def getStats_def useEvents_request_def useInterestedEvents_request_def
  useSwipeEvent_request_def useStats_request_def api_ui_def api_frontend_def

lemmas ui_defs = authenticate_start_def authenticate_exchanged_def authenticate_loaded_def
  authenticate_catch_def handleSwipe_def handleSwipe_resolved_def handleSwipe_timeout_def
  handleSwipe_catch_def

lemmas sample_defs = loaded_world_def sample_queue_def sample_auth_def sample_event_def
  initial_world_def initial_app_def

lemmas frontend_defs = dashboard_world_def query_settled_def Dashboard_mount_def
  useStats_mount_def useEvents_mount_def mount_observer_def shouldFetchOnMount_def
  settle_query_def find_query_def new_query_def initial_frontend_def
  useSwipeEvent_settled_def invalidateQueries_def refetched_def

lemma authorization_interceptor:
  "authorization (interceptor st cfg) =
     (if truthy (getItem st ''user_id'') then Some (''Bearer '' @ the (getItem st ''user_id''))
      else authorization cfg)"
  by (simp add: interceptor_def authorization_def getUserId_def Let_def update_conv')

text \<open>
  C10. Every authenticated call of either client (events list, single event, swipe,
  interested list, stats) leaves with an \<^verbatim>\<open>Authorization\<close> header that is exactly
  \<^verbatim>\<open>Bearer\<close>, a space and the credential read from the store under \<^verbatim>\<open>user_id\<close>; when
  nothing is stored there the request has no \<^verbatim>\<open>Authorization\<close> header at all. (The
  interceptor tests the stored string for truthiness, so an empty string counts as no
  credential.)
\<close>

theorem gateway_authorization:
  "list_all (\<lambda>cfg. authorization cfg =
       (case getItem st ''user_id'' of
          None \<Rightarrow> None
        | Some c \<Rightarrow> if c = [] then None else Some (''Bearer '' @ c)))
     (authenticated_calls base st f eventId b)"
  by (simp add: api_defs authorization_interceptor split: option.split)
     (simp add: authorization_def)

text \<open>
  C7, as the code has it. In frontend's card a fee of 0 renders the row ``Free'' and a
  fee of \<^verbatim>\<open>null\<close> renders no row, so the two cards differ. In eventsort-ui's card the fee
  row is rendered only for a fee that is not \<^verbatim>\<open>null\<close> and greater than 0: a fee of 0 and a
  fee of \<^verbatim>\<open>null\<close> both render no fee row, and the two cards are the same.
\<close>

theorem fee_rendering:
  "EventCard_frontend (e\<lparr>fee := Some 0\<rparr>) \<noteq> EventCard_frontend (e\<lparr>fee := None\<rparr>)
   \<and> FeeRow Free \<in> set (EventCard_frontend (e\<lparr>fee := Some 0\<rparr>))
   \<and> fee_detail_frontend None = []
   \<and> fee_detail_ui (Some x) = (if 0 < x then [FeeRow (Dollars x)] else [])
   \<and> fee_detail_ui None = []
   \<and> EventCard_ui (e\<lparr>fee := Some 0\<rparr>) = EventCard_ui (e\<lparr>fee := None\<rparr>)"
  by (simp add: EventCard_frontend_def EventCard_ui_def fee_detail_frontend_def
        fee_detail_ui_def row_if_def)

text \<open>
  Against C7 as stated: eventsort-ui renders the same card, with no fee row and no
  ``Free'', for a fee of 0 and for a fee of \<^verbatim>\<open>null\<close>.
\<close>

theorem fee_zero_hidden_in_eventsort_ui:
  "EventCard_ui ((sample_event 1 ''Talk'')\<lparr>fee := Some 0\<rparr>)
     = EventCard_ui ((sample_event 1 ''Talk'')\<lparr>fee := None\<rparr>)
   \<and> EventCard_ui ((sample_event 1 ''Talk'')\<lparr>fee := Some 0\<rparr>)
     = [DateRow ''2025-03-01'', LocationRow ''TBC'']"
  by (simp add: EventCard_ui_def fee_detail_ui_def row_if_def sample_event_def)

section \<open>Properties of the review queue and the swipe resolver (eventsort-ui)\<close>

lemma run_Nil: "run [] w = w"
  by (simp add: run_def)

lemma run_Cons: "run (oc # os) w = run os (step oc w)"
  by (simp add: run_def)

lemma run_append: "run (os @ os') w = run os' (run os w)"
  by (simp add: run_def)

subsection \<open>The guard is set exactly while a request or a timer is pending\<close>

lemma guard_inv_step:
  assumes "awaiting_swipe w + timers w = (if swiping (app w) then 1 else 0)"
  shows "awaiting_swipe (step oc w) + timers (step oc w) = (if swiping (app (step oc w)) then 1 else 0)"
  using assms by (cases oc) (auto simp: ui_defs Let_def split: if_splits)

lemma guard_inv_run:
  "awaiting_swipe w + timers w = (if swiping (app w) then 1 else 0) \<Longrightarrow>
   awaiting_swipe (run os w) + timers (run os w) = (if swiping (app (run os w)) then 1 else 0)"
proof (induction os arbitrary: w)
  case Nil
  then show ?case by (simp add: run_Nil)
next
  case (Cons oc os)
  from Cons.prems have "awaiting_swipe (step oc w) + timers (step oc w)
      = (if swiping (app (step oc w)) then 1 else 0)"
    by (rule guard_inv_step)
  then show ?case unfolding run_Cons by (rule Cons.IH)
qed

lemma guard_inv_initial:
  "awaiting_swipe (initial_world q st) + timers (initial_world q st)
     = (if swiping (app (initial_world q st)) then 1 else 0)"
  by (simp add: initial_world_def initial_app_def)

lemma handleSwipe_blocked:
  "swiping (app w) \<or> length (events (app w)) \<le> currentIndex (app w) \<Longrightarrow> handleSwipe d w = w"
  by (auto simp: handleSwipe_def)

text \<open>
  C1. Whatever happens to the page, in whatever order (mounts, responses, gestures,
  timers), at most one swipe request is outstanding, and while one is outstanding the
  in-flight guard is set. In any state whose guard is set, or whose cursor is at or past
  the length of the queue, invoking the swipe handler changes nothing: the state is the
  same, and no request is added to those issued.
\<close>

theorem at_most_one_swipe_in_flight:
  "awaiting_swipe (run os (initial_world q st)) \<le> 1
   \<and> (0 < awaiting_swipe (run os (initial_world q st))
        \<longrightarrow> swiping (app (run os (initial_world q st))))
   \<and> (swiping (app w) \<or> length (events (app w)) \<le> currentIndex (app w)
        \<longrightarrow> step (Gesture d) w = w \<and> sent (step (Gesture d) w) = sent w)"
proof -
  have "awaiting_swipe (run os (initial_world q st)) + timers (run os (initial_world q st))
      = (if swiping (app (run os (initial_world q st))) then 1 else 0)"
    by (rule guard_inv_run [OF guard_inv_initial])
  then have "awaiting_swipe (run os (initial_world q st)) \<le> 1"
    and "0 < awaiting_swipe (run os (initial_world q st))
           \<longrightarrow> swiping (app (run os (initial_world q st)))"
    by (auto split: if_splits)
  then show ?thesis by (simp add: handleSwipe_blocked)
qed

text \<open>
  C1 on the loaded page: after a swipe right on the first event, one request is
  outstanding, the guard is set, and a second gesture changes nothing.
\<close>

theorem at_most_one_swipe_in_flight_witness:
  "swiping (app (run [Gesture Right] loaded_world))
   \<and> step (Gesture Left) (run [Gesture Right] loaded_world) = run [Gesture Right] loaded_world
   \<and> sent (step (Gesture Left) (run [Gesture Right] loaded_world))
       = sent (run [Gesture Right] loaded_world)
   \<and> 0 < awaiting_swipe (run [Mount, ExchangeOk sample_auth, EventsOk sample_queue, Gesture Right]
                         (initial_world [(''token'', ''abc'')] []))
   \<and> awaiting_swipe (run [Mount, ExchangeOk sample_auth, EventsOk sample_queue, Gesture Right]
                         (initial_world [(''token'', ''abc'')] [])) \<le> 1
   \<and> swiping (app (run [Mount, ExchangeOk sample_auth, EventsOk sample_queue, Gesture Right]
                         (initial_world [(''token'', ''abc'')] [])))"
  using at_most_one_swipe_in_flight
    [of "[Mount, ExchangeOk sample_auth, EventsOk sample_queue, Gesture Right]"
        "[(''token'', ''abc'')]" "[]" "run [Gesture Right] loaded_world" Left]
  by (simp add: sample_defs run_def ui_defs Let_def)

subsection \<open>The cursor\<close>

lemma session_inv_step:
  assumes "currentIndex (app w) + awaiting_swipe w + timers w \<le> length (events (app w))"
      and "awaiting_swipe w + timers w = (if swiping (app w) then 1 else 0)"
      and "awaiting_exchange w + awaiting_events w \<le> 1"
      and "0 < awaiting_exchange w + awaiting_events w \<longrightarrow> events (app w) = []"
      and "oc \<noteq> Mount"
  shows "currentIndex (app (step oc w)) + awaiting_swipe (step oc w) + timers (step oc w)
           \<le> length (events (app (step oc w)))
       \<and> awaiting_swipe (step oc w) + timers (step oc w) = (if swiping (app (step oc w)) then 1 else 0)
       \<and> awaiting_exchange (step oc w) + awaiting_events (step oc w) \<le> 1
       \<and> (0 < awaiting_exchange (step oc w) + awaiting_events (step oc w) \<longrightarrow> events (app (step oc w)) = [])"
  using assms by (cases oc) (auto simp: ui_defs Let_def split: if_splits)

lemma session_inv_run:
  assumes "currentIndex (app w) + awaiting_swipe w + timers w \<le> length (events (app w))"
      and "awaiting_swipe w + timers w = (if swiping (app w) then 1 else 0)"
      and "awaiting_exchange w + awaiting_events w \<le> 1"
      and "0 < awaiting_exchange w + awaiting_events w \<longrightarrow> events (app w) = []"
      and "list_all (\<lambda>oc. oc \<noteq> Mount) os"
  shows "currentIndex (app (run os w)) \<le> length (events (app (run os w)))"
  using assms
proof (induction os arbitrary: w)
  case Nil
  then show ?case by (simp add: run_Nil)
next
  case (Cons oc os)
  from Cons.prems have "oc \<noteq> Mount" and r: "list_all (\<lambda>oc. oc \<noteq> Mount) os" by simp_all
  note s = session_inv_step [OF Cons.prems(1-4) \<open>oc \<noteq> Mount\<close>]
  show ?case unfolding run_Cons
    by (rule Cons.IH [OF s [THEN conjunct1] s [THEN conjunct2, THEN conjunct1]
          s [THEN conjunct2, THEN conjunct2, THEN conjunct1]
          s [THEN conjunct2, THEN conjunct2, THEN conjunct2] r])
qed

lemma page_load_cursor_bound:
  assumes "list_all (\<lambda>oc. oc \<noteq> Mount) os"
  shows "currentIndex (app (run (Mount # os) (initial_world q st)))
           \<le> length (events (app (run (Mount # os) (initial_world q st))))"
  unfolding run_Cons
  by (rule session_inv_run [OF _ _ _ _ assms])
     (auto simp: initial_world_def initial_app_def authenticate_start_def Let_def)

lemma resolution_effect:
  assumes "\<not> swiping (app w)" and "awaiting_swipe w = 0" and "timers w = 0"
  shows "\<not> swiping (app (run (resolution d) w))
       \<and> awaiting_swipe (run (resolution d) w) = 0
       \<and> timers (run (resolution d) w) = 0
       \<and> events (app (run (resolution d) w)) = events (app w)
       \<and> currentIndex (app (run (resolution d) w))
           = (if currentIndex (app w) < length (events (app w)) then currentIndex (app w) + 1
              else currentIndex (app w))"
  using assms by (simp add: resolution_def run_def ui_defs Let_def)

lemma resolutions_effect:
  assumes "\<not> swiping (app w)" and "awaiting_swipe w = 0" and "timers w = 0"
      and "currentIndex (app w) \<le> length (events (app w))"
  shows "currentIndex (app (run (concat (map resolution ds)) w))
           = min (currentIndex (app w) + length ds) (length (events (app w)))"
  using assms
proof (induction ds arbitrary: w)
  case Nil
  then show ?case by (simp add: run_Nil)
next
  case (Cons d ds)
  note e = resolution_effect [OF Cons.prems(1-3), of d]
  have "currentIndex (app (run (concat (map resolution ds)) (run (resolution d) w)))
      = min (currentIndex (app (run (resolution d) w)) + length ds)
            (length (events (app (run (resolution d) w))))"
    using e Cons.prems(4) by (intro Cons.IH) (simp_all split: if_splits)
  then show ?case using e Cons.prems(4) by (simp add: run_append split: if_splits)
qed

lemma step_no_load_cursor:
  "\<not> is_load oc \<Longrightarrow> currentIndex (app w) \<le> currentIndex (app (step oc w))"
  by (cases oc) (auto simp: ui_defs Let_def)

lemma loaded_world_idle:
  "\<not> swiping (app loaded_world) \<and> awaiting_swipe loaded_world = 0 \<and> timers loaded_world = 0
   \<and> currentIndex (app loaded_world) = 0 \<and> events (app loaded_world) = sample_queue"
  by (simp add: sample_defs run_def ui_defs Let_def)

text \<open>
  C2. On a page that is mounted once, the cursor never exceeds the length of the queue,
  whatever happens afterwards and in whatever order. From a state with no swipe pending
  and the cursor within the queue, a sequence of successful swipe resolutions (gesture,
  response, timer) moves the cursor by exactly 1 per resolution until it reaches the
  length of the queue, where it stays: after \<open>length ds\<close> of them it is the smaller of
  the start plus \<open>length ds\<close> and the length. The arrival of the queue sets the cursor to
  0, and no other occurrence ever decreases it.
\<close>

theorem cursor_monotone:
  "(list_all (\<lambda>oc. oc \<noteq> Mount) os \<longrightarrow>
      currentIndex (app (run (Mount # os) (initial_world q st)))
        \<le> length (events (app (run (Mount # os) (initial_world q st)))))
   \<and> (\<not> swiping (app w) \<and> awaiting_swipe w = 0 \<and> timers w = 0
        \<and> currentIndex (app w) \<le> length (events (app w)) \<longrightarrow>
      currentIndex (app (run (concat (map resolution ds)) w))
        = min (currentIndex (app w) + length ds) (length (events (app w))))
   \<and> currentIndex (app (step (EventsOk es) w))
        = (if awaiting_events w = 0 then currentIndex (app w) else 0)
   \<and> (\<not> is_load oc \<longrightarrow> currentIndex (app w) \<le> currentIndex (app (step oc w)))"
  using page_load_cursor_bound [of os q st] resolutions_effect [of w ds]
    step_no_load_cursor [of oc w]
  by (simp add: authenticate_loaded_def)

text \<open>
  C2 on the loaded page of two events: one resolution puts the cursor at 1, three put it
  at 2, the length of the queue.
\<close>

theorem cursor_monotone_witness:
  "list_all (\<lambda>oc. oc \<noteq> Mount) [ExchangeOk sample_auth, EventsOk sample_queue, Gesture Right]
   \<and> \<not> swiping (app loaded_world) \<and> awaiting_swipe loaded_world = 0 \<and> timers loaded_world = 0
   \<and> currentIndex (app loaded_world) \<le> length (events (app loaded_world))
   \<and> \<not> is_load Timeout
   \<and> currentIndex (app (run (concat (map resolution [Right, Left, Right])) loaded_world)) = 2
   \<and> currentIndex (app (run (resolution Right) loaded_world)) = 1"
  using cursor_monotone [of "[ExchangeOk sample_auth, EventsOk sample_queue, Gesture Right]"
      "[(''token'', ''abc'')]" "[]" loaded_world "[Right, Left, Right]" "[]" Timeout]
    cursor_monotone [of "[]" "[]" "[]" loaded_world "[Right]" "[]" Timeout]
    loaded_world_idle
  by (simp add: sample_queue_def)

subsection \<open>A failed swipe\<close>

lemma after_first_resolution:
  "\<not> swiping (app (run (resolution Right) loaded_world))
   \<and> currentIndex (app (run (resolution Right) loaded_world)) = 1
   \<and> events (app (run (resolution Right) loaded_world)) = sample_queue
   \<and> loading (app (run (resolution Right) loaded_world)) = False
   \<and> error (app (run (resolution Right) loaded_world)) = None
   \<and> authenticated (app (run (resolution Right) loaded_world))"
  by (simp add: sample_defs resolution_def run_def ui_defs Let_def)

text \<open>
  C4. A swipe whose request fails leaves the cursor and the queue as they were, so the
  same event stays presented; the guard and the swipe direction are cleared, no timer is
  scheduled, the store is untouched, and the only request issued is the failed swipe
  itself (nothing is re-fetched). The same or another gesture then passes the guard again
  and issues a request for the same event. In frontend a failed mutation leaves the page,
  cache included, as it was.
\<close>

theorem failed_swipe_keeps_position:
  assumes "\<not> swiping (app w)" and "currentIndex (app w) < length (events (app w))"
  shows "currentIndex (app (run [Gesture d, SwipeFail err] w)) = currentIndex (app w)
       \<and> events (app (run [Gesture d, SwipeFail err] w)) = events (app w)
       \<and> App_view (app (run [Gesture d, SwipeFail err] w)) = App_view (app w)
       \<and> \<not> swiping (app (run [Gesture d, SwipeFail err] w))
       \<and> swipeDirection (app (run [Gesture d, SwipeFail err] w)) = None
       \<and> timers (run [Gesture d, SwipeFail err] w) = timers w
       \<and> localStorage (run [Gesture d, SwipeFail err] w) = localStorage w
       \<and> sent (run [Gesture d, SwipeFail err] w)
           = sent w @ [swipeEvent (localStorage w) (e_id (events (app w) ! currentIndex (app w))) (d = Right)]
       \<and> sent (step (Gesture d') (run [Gesture d, SwipeFail err] w))
           = sent (run [Gesture d, SwipeFail err] w)
             @ [swipeEvent (localStorage w) (e_id (events (app w) ! currentIndex (app w))) (d' = Right)]
       \<and> useSwipeEvent_settled (Inl err) fw = fw"
  using assms
  by (simp add: run_def ui_defs Let_def App_view_def useSwipeEvent_settled_def)

text \<open>
  C4 on the scenario of two events: E1 swiped right with success, then E2 swiped left
  with a network error. The cursor stays at 1 and E2 is still the card presented.
\<close>

theorem failed_swipe_keeps_position_witness:
  "\<not> swiping (app (run (resolution Right) loaded_world))
   \<and> currentIndex (app (run (resolution Right) loaded_world))
       < length (events (app (run (resolution Right) loaded_world)))
   \<and> currentIndex (app (run [Gesture Left, SwipeFail NetworkError]
        (run (resolution Right) loaded_world))) = 1
   \<and> App_view (app (run [Gesture Left, SwipeFail NetworkError]
        (run (resolution Right) loaded_world))) = ReviewingView (sample_event 2 ''E2'')
   \<and> \<not> swiping (app (run [Gesture Left, SwipeFail NetworkError]
        (run (resolution Right) loaded_world)))"
  using failed_swipe_keeps_position [of "run (resolution Right) loaded_world" Left NetworkError Left]
    after_first_resolution
  by (simp add: App_view_def sample_queue_def)

subsection \<open>The guard and the transition delay\<close>

text \<open>
  C8, as the code has it. After a successful swipe resolution the guard stays set for the
  whole transition delay: when the response has arrived and the timer is scheduled the
  guard is still set and the cursor has not moved, a gesture made then changes nothing,
  and the guard clears in the timer's callback, together with the advance of the cursor.
\<close>

theorem guard_held_until_advance:
  assumes "\<not> swiping (app w)" and "currentIndex (app w) < length (events (app w))"
  shows "swiping (app (run [Gesture d, SwipeOk] w))
       \<and> timers (run [Gesture d, SwipeOk] w) = timers w + 1
       \<and> currentIndex (app (run [Gesture d, SwipeOk] w)) = currentIndex (app w)
       \<and> step (Gesture d') (run [Gesture d, SwipeOk] w) = run [Gesture d, SwipeOk] w
       \<and> \<not> swiping (app (run [Gesture d, SwipeOk, Timeout] w))
       \<and> currentIndex (app (run [Gesture d, SwipeOk, Timeout] w)) = currentIndex (app w) + 1"
  using assms
  by (simp add: run_def ui_defs Let_def)

text \<open>C8 as amended, on the loaded page.\<close>

theorem guard_held_until_advance_witness:
  "\<not> swiping (app loaded_world)
   \<and> currentIndex (app loaded_world) < length (events (app loaded_world))
   \<and> swiping (app (run [Gesture Right, SwipeOk] loaded_world))
   \<and> step (Gesture Left) (run [Gesture Right, SwipeOk] loaded_world)
       = run [Gesture Right, SwipeOk] loaded_world
   \<and> \<not> swiping (app (run [Gesture Right, SwipeOk, Timeout] loaded_world))
   \<and> currentIndex (app (run [Gesture Right, SwipeOk, Timeout] loaded_world)) = 1"
  using guard_held_until_advance [of loaded_world Right Left] loaded_world_idle
  by (simp add: sample_queue_def)

text \<open>
  Against C8 as stated: on the loaded page, once the swipe right has succeeded and the
  delay runs (one timer is scheduled), the guard is still set, and a swipe left made
  during the delay issues no request.
\<close>

theorem guard_set_while_delay_runs:
  "timers (run [Gesture Right, SwipeOk] loaded_world) = 1
   \<and> swiping (app (run [Gesture Right, SwipeOk] loaded_world))
   \<and> sent (step (Gesture Left) (run [Gesture Right, SwipeOk] loaded_world))
       = sent (run [Gesture Right, SwipeOk] loaded_world)"
  by (simp add: sample_defs run_def ui_defs Let_def)

section \<open>Properties of the session bootstrap\<close>

subsection \<open>Writes to the credential store\<close>

text \<open>
  C9, as the code has it. In eventsort-ui the only occurrence that writes to the store is
  the success of the token exchange, which makes two writes, \<^verbatim>\<open>user_id\<close> and then
  \<^verbatim>\<open>username\<close>, one of them under the credential's key; the start of the bootstrap, a
  failed exchange, the queue's arrival or failure and every swipe occurrence leave the
  store as it was (so a queue load that fails after a successful exchange leaves the
  credential written). In frontend the success of the exchange makes exactly one write,
  \<^verbatim>\<open>user_id\<close>; its failure and the mounting of the hook make none.
\<close>

theorem bootstrap_store_writes:
  "localStorage (step oc w) =
     (case oc of
        ExchangeOk r \<Rightarrow>
          if awaiting_exchange w = 0 then localStorage w
          else (''username'', username r) # (''user_id'', js_toString (user_id r)) # localStorage w
      | _ \<Rightarrow> localStorage w)
   \<and> length (filter (\<lambda>kv. fst kv = ''user_id'') (localStorage (authenticate_exchanged r w)))
       = length (filter (\<lambda>kv. fst kv = ''user_id'') (localStorage w)) + 1
   \<and> sessionStorage (useAuth_settled (Inr r) fw)
       = (''user_id'', js_toString (user_id r)) # sessionStorage fw
   \<and> sessionStorage (useAuth_settled (Inl err) fw) = sessionStorage fw
   \<and> sessionStorage (useAuth_mount base fw) = sessionStorage fw"
  by (cases oc)
     (simp_all add: ui_defs Let_def setItem_def useAuth_settled_def useAuth_mount_def setUserId_def)

text \<open>
  Against C9 as stated: a successful bootstrap of eventsort-ui on an empty store makes two
  writes, not one.
\<close>

theorem bootstrap_writes_twice_in_eventsort_ui:
  "localStorage (run [Mount, ExchangeOk sample_auth] (initial_world [(''token'', ''abc'')] []))
     = [(''username'', ''ann''), (''user_id'', ''42'')]
   \<and> length (localStorage (run [Mount, ExchangeOk sample_auth] (initial_world [(''token'', ''abc'')] [])))
       - length (localStorage (initial_world [(''token'', ''abc'')] [])) = 2"
  by (simp add: sample_defs run_def ui_defs Let_def setItem_def js_toString_def showNat.simps digit_char_def)

subsection \<open>Token exchanges per mount\<close>

lemma is_exchange_validateToken: "is_exchange (validateToken t)"
  by (simp add: is_exchange_def validateToken_def)

lemma is_exchange_useAuth_request: "is_exchange (useAuth_request base st t)"
  by (simp add: is_exchange_def useAuth_request_def api_frontend_def interceptor_def Let_def)

lemma is_exchange_interceptor: "is_exchange (interceptor st cfg) = is_exchange cfg"
  by (simp add: is_exchange_def interceptor_def Let_def)

lemma not_exchange_getEvents: "\<not> is_exchange (getEvents st f)"
  by (simp add: getEvents_def api_ui_def is_exchange_interceptor) (simp add: is_exchange_def)

lemma not_exchange_swipeEvent: "\<not> is_exchange (swipeEvent st i b)"
  by (simp add: swipeEvent_def api_ui_def is_exchange_interceptor)
     (simp add: is_exchange_def API_BASE_URL_def)

lemma exchange_step_ui:
  assumes "truthy (map_of (search w) ''token'')"
  shows "search (step oc w) = search w
       \<and> filter is_exchange (sent (step oc w))
           = filter is_exchange (sent w)
             @ (if oc = Mount then [validateToken (the (map_of (search w) ''token''))] else [])"
  using assms
  by (cases oc)
     (simp_all add: ui_defs Let_def is_exchange_validateToken not_exchange_getEvents
        not_exchange_swipeEvent)

lemma exchange_run_ui:
  assumes "truthy (map_of (search w) ''token'')"
  shows "filter is_exchange (sent (run os w))
           = filter is_exchange (sent w)
             @ replicate (count_list os Mount) (validateToken (the (map_of (search w) ''token'')))"
  using assms
proof (induction os arbitrary: w)
  case Nil
  show ?case by (simp add: run_Nil)
next
  case (Cons oc os)
  note s = exchange_step_ui [OF Cons.prems, of oc]
  from Cons.prems s have "truthy (map_of (search (step oc w)) ''token'')" by simp
  from Cons.IH [OF this] s show ?case
    by (simp add: run_Cons replicate_app_Cons_same)
qed

lemma not_exchange_frontend_requests:
  "\<not> is_exchange (useEvents_request base st f)"
  "\<not> is_exchange (useStats_request base st)"
  "\<not> is_exchange (useSwipeEvent_request base st i b)"
  by (simp_all add: useEvents_request_def useStats_request_def useSwipeEvent_request_def
        api_frontend_def is_exchange_interceptor)
     (simp_all add: is_exchange_def)

lemma map_of_invalidateQueries:
  "map_of (invalidateQueries k c) key
     = map_option (\<lambda>q. if prefix k key then q\<lparr>isInvalidated := True\<rparr> else q) (map_of c key)"
  by (induction c) (auto simp: invalidateQueries_def)

lemma auth_query_inv_frame:
  assumes "auth_query_inv base q st mounted w"
      and "page_search w' = page_search w"
      and "filter is_exchange (requests w') = filter is_exchange (requests w)"
      and "sessionStorage w' = sessionStorage w"
      and "map_of (cache w') [Some ''auth'', getTokenFromUrl q]
             = map_of (cache w) [Some ''auth'', getTokenFromUrl q]"
  shows "auth_query_inv base q st mounted w'"
  using assms by (simp add: auth_query_inv_def)

lemma mount_observer_other:
  "k \<noteq> key \<Longrightarrow> map_of (fst (mount_observer k enabled forever c)) key = map_of c key"
  by (simp add: mount_observer_def Let_def update_conv')

lemma settle_query_other:
  "k \<noteq> key \<Longrightarrow> map_of (settle_query k r c) key = map_of c key"
  by (simp add: settle_query_def Let_def update_conv')

lemma useEvents_mount_frame:
  "page_search (useEvents_mount base f w) = page_search w
   \<and> filter is_exchange (requests (useEvents_mount base f w)) = filter is_exchange (requests w)
   \<and> sessionStorage (useEvents_mount base f w) = sessionStorage w
   \<and> map_of (cache (useEvents_mount base f w)) [Some ''auth'', t] = map_of (cache w) [Some ''auth'', t]"
  by (simp add: useEvents_mount_def Let_def mount_observer_other not_exchange_frontend_requests)

lemma useStats_mount_frame:
  "page_search (useStats_mount base w) = page_search w
   \<and> filter is_exchange (requests (useStats_mount base w)) = filter is_exchange (requests w)
   \<and> sessionStorage (useStats_mount base w) = sessionStorage w
   \<and> map_of (cache (useStats_mount base w)) [Some ''auth'', t] = map_of (cache w) [Some ''auth'', t]"
  by (simp add: useStats_mount_def Let_def mount_observer_other not_exchange_frontend_requests)

lemma Dashboard_mount_frame:
  "page_search (Dashboard_mount base w) = page_search w
   \<and> filter is_exchange (requests (Dashboard_mount base w)) = filter is_exchange (requests w)
   \<and> sessionStorage (Dashboard_mount base w) = sessionStorage w
   \<and> map_of (cache (Dashboard_mount base w)) [Some ''auth'', t] = map_of (cache w) [Some ''auth'', t]"
  by (simp add: Dashboard_mount_def useEvents_mount_frame useStats_mount_frame)

lemma query_settled_frame:
  "k \<noteq> [Some ''auth'', t] \<Longrightarrow>
   page_search (query_settled k r w) = page_search w
   \<and> filter is_exchange (requests (query_settled k r w)) = filter is_exchange (requests w)
   \<and> sessionStorage (query_settled k r w) = sessionStorage w
   \<and> map_of (cache (query_settled k r w)) [Some ''auth'', t] = map_of (cache w) [Some ''auth'', t]"
  by (simp add: query_settled_def settle_query_other)

lemma useSwipeEvent_mutate_frame:
  "page_search (useSwipeEvent_mutate base i b w) = page_search w
   \<and> filter is_exchange (requests (useSwipeEvent_mutate base i b w)) = filter is_exchange (requests w)
   \<and> sessionStorage (useSwipeEvent_mutate base i b w) = sessionStorage w
   \<and> cache (useSwipeEvent_mutate base i b w) = cache w"
  by (simp add: useSwipeEvent_mutate_def not_exchange_frontend_requests)

lemma useSwipeEvent_settled_frame:
  "page_search (useSwipeEvent_settled r w) = page_search w
   \<and> filter is_exchange (requests (useSwipeEvent_settled r w)) = filter is_exchange (requests w)
   \<and> sessionStorage (useSwipeEvent_settled r w) = sessionStorage w
   \<and> map_of (cache (useSwipeEvent_settled r w)) [Some ''auth'', t] = map_of (cache w) [Some ''auth'', t]"
  by (cases r) (simp_all add: useSwipeEvent_settled_def map_of_invalidateQueries map_option.identity)


lemma auth_query_inv_unmounted:
  "auth_query_inv base q st False w =
     (page_search w = q \<and> filter is_exchange (requests w) = [] \<and> sessionStorage w = st
      \<and> map_of (cache w) [Some ''auth'', getTokenFromUrl q] = None)"
  by (simp add: auth_query_inv_def)

lemma auth_query_inv_mounted:
  "auth_query_inv base q st True w =
     (page_search w = q
      \<and> filter is_exchange (requests w) = [useAuth_request base st (the (getTokenFromUrl q))]
      \<and> (\<exists>a. map_of (cache w) [Some ''auth'', getTokenFromUrl q] = Some a
             \<and> (fetchStatus a = Fetching
                  \<or> (fetchStatus a = Idle \<and> q_data a \<noteq> None \<and> \<not> isInvalidated a))))"
  by (simp add: auth_query_inv_def split: option.split)

lemma useAuth_mount_inv:
  assumes "truthy (getTokenFromUrl q)" and "auth_query_inv base q st mounted w"
  shows "auth_query_inv base q st True (useAuth_mount base w)"
proof (cases mounted)
  case False
  with assms(2) have "page_search w = q" and "filter is_exchange (requests w) = []"
    and "sessionStorage w = st" and "map_of (cache w) [Some ''auth'', getTokenFromUrl q] = None"
    by (simp_all add: auth_query_inv_unmounted)
  with assms(1) show ?thesis
    by (simp add: auth_query_inv_mounted useAuth_mount_def useAuth_key_def mount_observer_def
          shouldFetchOnMount_def find_query_def new_query_def Let_def update_conv'
          is_exchange_useAuth_request)
next
  case True
  with assms(2) obtain a where p: "page_search w = q"
    and r: "filter is_exchange (requests w) = [useAuth_request base st (the (getTokenFromUrl q))]"
    and c: "map_of (cache w) [Some ''auth'', getTokenFromUrl q] = Some a"
    and d: "fetchStatus a = Fetching
            \<or> (fetchStatus a = Idle \<and> q_data a \<noteq> None \<and> \<not> isInvalidated a)"
    by (auto simp: auth_query_inv_mounted)
  from d show ?thesis
  proof
    assume "fetchStatus a = Fetching"
    with p r c show ?thesis
      by (simp add: auth_query_inv_mounted useAuth_mount_def useAuth_key_def mount_observer_def
            find_query_def Let_def update_conv')
  next
    assume "fetchStatus a = Idle \<and> q_data a \<noteq> None \<and> \<not> isInvalidated a"
    with p r c show ?thesis
      by (simp add: auth_query_inv_mounted useAuth_mount_def useAuth_key_def mount_observer_def
            shouldFetchOnMount_def find_query_def Let_def update_conv')
  qed
qed

lemma AuthOk_inv:
  assumes "auth_query_inv base q st mounted w"
  shows "auth_query_inv base q st mounted (step_frontend base (AuthOk r) w)"
proof (cases mounted)
  case False
  with assms have "page_search w = q"
    and "map_of (cache w) [Some ''auth'', getTokenFromUrl q] = None"
    by (simp_all add: auth_query_inv_unmounted)
  then have "step_frontend base (AuthOk r) w = w"
    by (simp add: useAuth_key_def find_query_def new_query_def)
  with assms show ?thesis by simp
next
  case True
  with assms obtain a where p: "page_search w = q"
    and r: "filter is_exchange (requests w) = [useAuth_request base st (the (getTokenFromUrl q))]"
    and c: "map_of (cache w) [Some ''auth'', getTokenFromUrl q] = Some a"
    and d: "fetchStatus a = Fetching
            \<or> (fetchStatus a = Idle \<and> q_data a \<noteq> None \<and> \<not> isInvalidated a)"
    by (auto simp: auth_query_inv_mounted)
  from d show ?thesis
  proof
    assume "fetchStatus a = Fetching"
    with p r c True show ?thesis
      by (simp add: auth_query_inv_mounted useAuth_settled_def useAuth_key_def settle_query_def
            find_query_def Let_def update_conv')
  next
    assume i: "fetchStatus a = Idle \<and> q_data a \<noteq> None \<and> \<not> isInvalidated a"
    with p c have "step_frontend base (AuthOk r) w = w"
      by (simp add: useAuth_key_def find_query_def)
    with assms show ?thesis by simp
  qed
qed

lemma auth_query_inv_step:
  assumes "truthy (getTokenFromUrl q)" and "auth_query_inv base q st mounted w"
  shows "auth_query_inv base q st (mounted \<or> oc = AuthMount) (step_frontend base oc w)"
proof (cases oc)
  case AuthMount
  with useAuth_mount_inv [OF assms] show ?thesis by simp
next
  case (AuthOk r)
  with AuthOk_inv [OF assms(2), of r] show ?thesis by simp
next
  case DashboardMount
  with auth_query_inv_frame [OF assms(2), of "Dashboard_mount base w"] Dashboard_mount_frame
  show ?thesis by simp
next
  case (EventsLoaded es)
  with auth_query_inv_frame [OF assms(2),
      of "query_settled [Some ''events'', Some ''upcoming''] (Inr (EventsData es)) w"]
    query_settled_frame [of "[Some ''events'', Some ''upcoming'']"]
  show ?thesis by simp
next
  case (StatsLoaded x)
  with auth_query_inv_frame [OF assms(2), of "query_settled [Some ''stats''] (Inr (StatsData x)) w"]
    query_settled_frame [of "[Some ''stats'']"]
  show ?thesis by simp
next
  case (SwipeMutate i b)
  with auth_query_inv_frame [OF assms(2), of "useSwipeEvent_mutate base i b w"]
    useSwipeEvent_mutate_frame [of base i b w]
  show ?thesis by simp
next
  case (SwipeSettled r)
  with auth_query_inv_frame [OF assms(2), of "useSwipeEvent_settled r w"]
    useSwipeEvent_settled_frame
  show ?thesis by simp
qed

lemma auth_query_inv_run:
  assumes "truthy (getTokenFromUrl q)" and "auth_query_inv base q st mounted w"
  shows "auth_query_inv base q st (mounted \<or> AuthMount \<in> set os) (run_frontend base os w)"
  using assms(2)
proof (induction os arbitrary: w mounted)
  case Nil
  then show ?case by (simp add: run_frontend_def)
next
  case (Cons oc os)
  from auth_query_inv_step [OF assms(1) Cons.prems, of oc]
  have "auth_query_inv base q st ((mounted \<or> oc = AuthMount) \<or> AuthMount \<in> set os)
          (run_frontend base os (step_frontend base oc w))"
    by (rule Cons.IH)
  moreover have "((mounted \<or> oc = AuthMount) \<or> AuthMount \<in> set os)
      = (mounted \<or> AuthMount \<in> set (oc # os))" by auto
  ultimately show ?case by (simp add: run_frontend_def)
qed

lemma auth_query_inv_initial: "auth_query_inv base q st False (initial_frontend q st)"
  by (simp add: auth_query_inv_def initial_frontend_def)

lemma exchange_run_frontend:
  assumes "truthy (getTokenFromUrl q)"
  shows "filter is_exchange (requests (run_frontend base os (initial_frontend q st)))
           = (if AuthMount \<in> set os then [useAuth_request base st (the (getTokenFromUrl q))] else [])"
  using auth_query_inv_run [OF assms auth_query_inv_initial, of base st os]
  by (simp add: auth_query_inv_def split: if_splits)

text \<open>
  C6, as the code has it. With a valid token in the URL, whatever happens to the page and
  in whatever order, eventsort-ui has issued exactly one token-exchange request per
  mount and no other: it does not deduplicate, so one mount gives one request and \<open>n\<close>
  mounts give \<open>n\<close>. frontend has issued exactly one token-exchange request once its hook
  has mounted, however many times it mounts, while the exchange runs or after it has
  succeeded, and whatever the dashboard and the swipes do: the mounts share the query
  keyed by the token.
\<close>

theorem exchange_requests_per_mount:
  assumes "truthy (map_of q ''token'')"
  shows "filter is_exchange (sent (run os (initial_world q st)))
           = replicate (count_list os Mount) (validateToken (the (map_of q ''token'')))
       \<and> filter is_exchange (requests (run_frontend base fos (initial_frontend q st)))
           = (if AuthMount \<in> set fos then [useAuth_request base st (the (map_of q ''token''))]
              else [])"
  using exchange_run_ui [of "initial_world q st" os] exchange_run_frontend [of q base fos st] assms
  by (simp add: initial_world_def getTokenFromUrl_def)

text \<open>
  C6 as amended, with the token \<^verbatim>\<open>abc\<close>: eventsort-ui mounted, loaded, swiped and mounted
  again has issued two exchanges; frontend mounted twice, exchanged, with the dashboard
  mounted, mounted again and a swipe submitted, has issued one.
\<close>

theorem exchange_requests_per_mount_witness:
  "truthy (map_of [(''token'', ''abc'')] ''token'')
   \<and> filter is_exchange
        (sent (run [Mount, ExchangeOk sample_auth, EventsOk sample_queue, Gesture Right, Mount]
           (initial_world [(''token'', ''abc'')] [])))
       = [validateToken ''abc'', validateToken ''abc'']
   \<and> filter is_exchange
        (requests (run_frontend ''http://localhost:8000''
           [AuthMount, AuthMount, AuthOk sample_auth, DashboardMount, AuthMount,
            SwipeMutate 1 True, SwipeSettled (Inr sample_swipe)]
           (initial_frontend [(''token'', ''abc'')] [])))
       = [useAuth_request ''http://localhost:8000'' [] ''abc'']"
  using exchange_requests_per_mount
    [of "[(''token'', ''abc'')]"
        "[Mount, ExchangeOk sample_auth, EventsOk sample_queue, Gesture Right, Mount]" "[]"
        "''http://localhost:8000''"
        "[AuthMount, AuthMount, AuthOk sample_auth, DashboardMount, AuthMount,
          SwipeMutate 1 True, SwipeSettled (Inr sample_swipe)]"]
  by simp

text \<open>
  Against C6 as stated: eventsort-ui mounted twice with a valid token issues two
  token-exchange requests.
\<close>

theorem duplicate_mount_exchanges_twice:
  "length (filter is_exchange (sent (run [Mount, Mount] (initial_world [(''token'', ''abc'')] [])))) = 2"
  by (simp add: run_def initial_world_def initial_app_def authenticate_start_def Let_def
        is_exchange_validateToken)

subsection \<open>No token in the URL\<close>

text \<open>
  C5 at a URL with an empty query string. eventsort-ui sends nothing and shows the error
  view with the no-token message. frontend sends nothing either, but \<^verbatim>\<open>AppContent\<close> does
  not reach its access-denied view: the disabled query is not in the error state, so the
  component either stays on the loading screen or goes on to read \<^verbatim>\<open>auth.username\<close> of
  \<^verbatim>\<open>undefined\<close>, according to the library's version.
\<close>

theorem no_token_bootstrap:
  "sent (step Mount (initial_world [] st)) = []
   \<and> App_view (app (step Mount (initial_world [] st))) = ErrorView no_token_message
   \<and> requests (useAuth_mount base (initial_frontend [] st)) = []
   \<and> AppContent v5 (useAuth_mount base (initial_frontend [] st))
       = (if v5 then TypeError else LoadingScreen)"
  by (simp add: initial_world_def initial_app_def authenticate_start_def App_view_def
        no_token_message_def useAuth_mount_def useAuth_key_def getTokenFromUrl_def
        mount_observer_def shouldFetchOnMount_def find_query_def new_query_def
        initial_frontend_def AppContent_def isLoading_def isError_def Let_def)

section \<open>Properties of the invalidation (frontend)\<close>

lemma stats_not_refetched: "[Some ''stats''] \<notin> set (refetched [Some ''events''] c)"
  by (induction c) (auto simp: refetched_def)

text \<open>
  C3, as the code has it. A successful swipe through \<^verbatim>\<open>useSwipeEvent\<close> invalidates every
  cached query whose key starts with \<^verbatim>\<open>'events'\<close> (the queue's snapshot for every filter,
  and the interested list) and refetches those of them that are mounted. The statistics,
  cached under the key \<^verbatim>\<open>['stats']\<close>, are neither invalidated nor refetched, and the
  success issues no request of its own.
\<close>

theorem swipe_success_invalidates_events_queries:
  "map_of (cache (useSwipeEvent_settled (Inr r) fw)) key
     = map_option (\<lambda>q. if prefix [Some ''events''] key then q\<lparr>isInvalidated := True\<rparr> else q)
         (map_of (cache fw) key)
   \<and> find_query (cache (useSwipeEvent_settled (Inr r) fw)) [Some ''stats'']
       = find_query (cache fw) [Some ''stats'']
   \<and> refetches (useSwipeEvent_settled (Inr r) fw)
       = refetches fw @ refetched [Some ''events''] (cache fw)
   \<and> [Some ''stats''] \<notin> set (refetched [Some ''events''] (cache fw))
   \<and> requests (useSwipeEvent_settled (Inr r) fw) = requests fw"
  by (simp add: useSwipeEvent_settled_def map_of_invalidateQueries stats_not_refetched
        find_query_def split: option.split)

text \<open>
  Against C3 as stated: with the dashboard mounted and its data cached, a successful swipe
  leaves the statistics query not invalidated and holding the counts cached before the
  swipe; only the queue's query is invalidated and refetched.
\<close>

theorem stats_not_invalidated_by_swipe:
  "\<not> isInvalidated (find_query (cache (useSwipeEvent_settled (Inr sample_swipe) dashboard_world))
        [Some ''stats''])
   \<and> q_data (find_query (cache (useSwipeEvent_settled (Inr sample_swipe) dashboard_world))
        [Some ''stats'']) = Some (StatsData sample_stats)
   \<and> isInvalidated (find_query (cache (useSwipeEvent_settled (Inr sample_swipe) dashboard_world))
        [Some ''events'', Some ''upcoming''])
   \<and> refetches (useSwipeEvent_settled (Inr sample_swipe) dashboard_world)
       = [[Some ''events'', Some ''upcoming'']]"
  by (simp add: frontend_defs Let_def)

end
